theory Spec2Isabelle
  imports
    Complex_Main
    "HOL-Library.Word"
    "HOL-Library.Char_ord"
    "HOL-Library.List_Lexorder"
begin

section \<open>Python values shared by both scoring pipelines\<close>

text \<open>
  Exceptions are values. The constructor is the Python class of the exception and the
  argument is its message. \<open>Exception\<close> is the base class raised by
  \<^verbatim>\<open>scoreP1.py\<close>, \<open>ScoreException\<close> the class raised by \<^verbatim>\<open>task3.py\<close>; the remaining
  classes are raised by the interpreter or by a library call.
\<close>

datatype exn =
    Exception string
  | ScoreException string
  | ValueError string
  | IndexError string
  | KeyError string
  | ZeroDivisionError string
  | OSError string

text \<open>
  The exceptions by which the program itself reports a rejected submission:
  \<^verbatim>\<open>raise Exception(...)\<close> in \<^verbatim>\<open>scoreP1.py\<close> and \<^verbatim>\<open>raise ScoreException(...)\<close> in
  \<^verbatim>\<open>task3.py\<close>.
\<close>

definition reportable :: "exn \<Rightarrow> bool" where
  "reportable e = (case e of Exception msg \<Rightarrow> True | ScoreException msg \<Rightarrow> True | _ \<Rightarrow> False)"

text \<open>Sequencing of computations that may raise: the first exception aborts.\<close>

definition bind_exn :: "exn + 'a \<Rightarrow> ('a \<Rightarrow> exn + 'b) \<Rightarrow> exn + 'b" where
  "bind_exn m f = (case m of Inl e \<Rightarrow> Inl e | Inr x \<Rightarrow> f x)"

text \<open>
  A metric is the dictionary \<^verbatim>\<open>{'name': ..., 'value': ...}\<close>, a score the dictionary
  \<^verbatim>\<open>{'dataset': ..., 'metrics': [...]}\<close>.
\<close>

record 'v metric =
  metric_name :: string
  metric_value :: 'v

record 'v score =
  dataset :: string
  metrics :: "'v metric list"

subsection \<open>Strings and paths\<close>

text \<open>\<^verbatim>\<open>s.split(c)\<close> for a one-character separator: never empty, one more token than separators.\<close>

fun split_on :: "char \<Rightarrow> string \<Rightarrow> string list" where
  "split_on c [] = [[]]"
| "split_on c (x # xs) =
     (if x = c then [] # split_on c xs
      else (case split_on c xs of
              [] \<Rightarrow> [[x]]
            | w # ws \<Rightarrow> (x # w) # ws))"

text \<open>\<^verbatim>\<open>s.rsplit(c, 1)[0]\<close>: the text before the last separator, or all of \<open>s\<close> without one.\<close>

definition rsplit1_head :: "char \<Rightarrow> string \<Rightarrow> string" where
  "rsplit1_head c s =
     (if c \<in> set s then rev (tl (dropWhile (\<lambda>x. x \<noteq> c) (rev s))) else s)"

text \<open>\<^verbatim>\<open>s.startswith(p)\<close> and the substring test \<^verbatim>\<open>p in s\<close>.\<close>

fun startswith :: "string \<Rightarrow> string \<Rightarrow> bool" where
  "startswith s [] = True"
| "startswith [] (p # ps) = False"
| "startswith (x # xs) (p # ps) = (x = p \<and> startswith xs ps)"

fun str_in :: "string \<Rightarrow> string \<Rightarrow> bool" where
  "str_in p [] = (p = [])"
| "str_in p (x # xs) = (startswith (x # xs) p \<or> str_in p xs)"

text \<open>\<^verbatim>\<open>os.path.basename\<close> and \<^verbatim>\<open>os.path.join\<close> of two components (POSIX).\<close>

definition basename :: "string \<Rightarrow> string" where
  "basename p = rev (takeWhile (\<lambda>c. c \<noteq> CHR ''/'') (rev p))"

definition path_join :: "string \<Rightarrow> string \<Rightarrow> string" where
  "path_join a b =
     (if startswith b ''/'' then b
      else if a = [] \<or> last a = CHR ''/'' then a @ b
      else a @ ''/'' @ b)"

text \<open>Decimal text of a natural number and of a pair of them, as \<^verbatim>\<open>%s\<close> prints a shape.\<close>

definition digit_char :: "nat \<Rightarrow> char" where
  "digit_char d = ''0123456789'' ! d"

function str_nat :: "nat \<Rightarrow> string" where
  "str_nat n = (if n < 10 then [digit_char n] else str_nat (n div 10) @ [digit_char (n mod 10)])"
  by pat_completeness auto
termination
  by (relation "measure id") auto

definition str_shape :: "nat \<times> nat \<Rightarrow> string" where
  "str_shape s = ''('' @ str_nat (fst s) @ '', '' @ str_nat (snd s) @ '')''"

section \<open>Segmentation scoring: \<^verbatim>\<open>scoreP1.py\<close>\<close>

subsection \<open>Images and the file system\<close>

text \<open>
  A two-dimensional \<^verbatim>\<open>uint8\<close> array: its shape (rows, columns) and its samples in
  row-major order. numpy keeps \<open>length (data a) = rows * columns\<close>.
\<close>

record ndarray =
  shape :: "nat \<times> nat"
  data :: "8 word list"

definition wf_array :: "ndarray \<Rightarrow> bool" where
  "wf_array a = (length (data a) = fst (shape a) * snd (shape a))"

text \<open>
  What \<^verbatim>\<open>Image.open\<close> gives for a file: the PIL mode and, for mode \<^verbatim>\<open>L\<close> (8-bit
  grey), the samples that \<^verbatim>\<open>np.array(image)\<close> reads.
\<close>

record pil_image =
  mode :: string
  pixels :: ndarray

text \<open>
  The file system as the program reads it: \<open>listing\<close> is \<^verbatim>\<open>os.listdir\<close> (in the order the
  system lists a directory, \<open>None\<close> where the directory cannot be listed), \<open>decode\<close> is
  \<^verbatim>\<open>Image.open\<close> (\<open>None\<close> where it raises).
\<close>

record filesystem =
  listing :: "string \<Rightarrow> string list option"
  decode :: "string \<Rightarrow> pil_image option"

subsection \<open>\<^verbatim>\<open>loadImage\<close>\<close>

text \<open>\<^verbatim>\<open>np.unique\<close>: the distinct samples, ascending.\<close>

definition np_unique :: "ndarray \<Rightarrow> 8 word list" where
  "np_unique a = remdups (sort (data a))"

text \<open>
  The in-place updates \<^verbatim>\<open>image /= highValue\<close> and \<^verbatim>\<open>image *= 255\<close> on a \<^verbatim>\<open>uint8\<close>
  array: the quotient is the integer quotient (the division of integer arrays under
  Python 2, for which this module was written), the product wraps modulo 256.
\<close>

definition idiv_array :: "ndarray \<Rightarrow> 8 word \<Rightarrow> ndarray" where
  "idiv_array a v = a\<lparr>data := map (\<lambda>x. x div v) (data a)\<rparr>"

definition imul_array :: "ndarray \<Rightarrow> 8 word \<Rightarrow> ndarray" where
  "imul_array a v = a\<lparr>data := map (\<lambda>x. x * v) (data a)\<rparr>"

definition msg_not_0_255 :: "string \<Rightarrow> exn" where
  "msg_not_0_255 imagePath =
     Exception (''Image '' @ basename imagePath @ '' contains values other than 0 and 255.'')"

text \<open>
  \<open>pop\<close> is \<^verbatim>\<open>set.pop\<close>: Python returns an arbitrary element of the set, so the
  choice is a parameter of the model; its argument lists the elements of the set
  \<^verbatim>\<open>imageValues - {0}\<close> in ascending order. The final test of the rescaling branch is
  Python's \<^verbatim>\<open>>\<close> on sets, the proper superset.
\<close>

definition loadImage :: "(8 word list \<Rightarrow> 8 word) \<Rightarrow> filesystem \<Rightarrow> string \<Rightarrow> exn + ndarray" where
  "loadImage pop fs imagePath =
     (case decode fs imagePath of
        None \<Rightarrow> Inl (Exception (''Could not decode image: '' @ basename imagePath))
      | Some img \<Rightarrow>
          if mode img \<noteq> ''L'' then
            Inl (Exception (''Image '' @ basename imagePath @
                            '' is not single-channel (grayscale).''))
          else
            let arr = pixels img;
                imageValues = np_unique arr
            in if set imageValues \<subseteq> {0, 255} then Inr arr
               else if length imageValues \<le> 2 then
                 let highValue = pop (filter (\<lambda>v. v \<noteq> 0) imageValues);
                     arr1 = idiv_array arr highValue;
                     arr2 = imul_array arr1 255
                 in if {0, 255} \<subset> set (np_unique arr2) then Inl (msg_not_0_255 imagePath)
                    else Inr arr2
               else Inl (msg_not_0_255 imagePath))"

subsection \<open>\<^verbatim>\<open>matchInputFile\<close>\<close>

text \<open>
  The loop over the directory listing. \<^verbatim>\<open>truthFile.split('_')[1]\<close> is evaluated inside
  the loop and raises \<^verbatim>\<open>IndexError\<close> when the name has no underscore.
\<close>

fun matchLoop :: "string \<Rightarrow> string \<Rightarrow> string list \<Rightarrow> exn + string" where
  "matchLoop truthFile testDir [] =
     Inl (Exception (''No matching submission image for: '' @ truthFile))"
| "matchLoop truthFile testDir (testFile # rest) =
     (case split_on CHR ''_'' truthFile of
        _ # truthFileId # _ \<Rightarrow>
          if str_in truthFileId testFile then Inr (path_join testDir testFile)
          else matchLoop truthFile testDir rest
      | _ \<Rightarrow> Inl (IndexError ''list index out of range''))"

definition matchInputFile :: "filesystem \<Rightarrow> string \<Rightarrow> string \<Rightarrow> exn + string" where
  "matchInputFile fs truthFile testDir =
     (case listing fs testDir of
        None \<Rightarrow> Inl (OSError testDir)
      | Some names \<Rightarrow> matchLoop truthFile testDir names)"

subsection \<open>\<^verbatim>\<open>scoreP1Image\<close>\<close>

text \<open>
  \<^verbatim>\<open>image > 128\<close>: the boolean mask, kept as the integers 0 and 1 that numpy's arithmetic
  reads from it; \<^verbatim>\<open>1 - mask\<close>; \<^verbatim>\<open>np.logical_and\<close>, true where both operands are
  non-zero; \<^verbatim>\<open>float(np.sum(...))\<close>.
\<close>

definition binarize :: "ndarray \<Rightarrow> int list" where
  "binarize a = map (\<lambda>v. if 128 < v then 1 else 0) (data a)"

definition negate_mask :: "int list \<Rightarrow> int list" where
  "negate_mask m = map (\<lambda>b. 1 - b) m"

definition logical_and :: "int list \<Rightarrow> int list \<Rightarrow> int list" where
  "logical_and xs ys = map (\<lambda>(x, y). if x \<noteq> 0 \<and> y \<noteq> 0 then 1 else 0) (zip xs ys)"

definition float_sum :: "int list \<Rightarrow> real" where
  "float_sum xs = real_of_int (sum_list xs)"

text \<open>
  Division of two Python floats. The operands are counts of samples, so a quotient of
  equal operands is exactly 1.0; a zero divisor raises.
\<close>

definition float_div :: "real \<Rightarrow> real \<Rightarrow> exn + real" where
  "float_div a b = (if b = 0 then Inl (ZeroDivisionError ''float division by zero'') else Inr (a / b))"

record confusion =
  truePositive :: real
  trueNegative :: real
  falsePositive :: real
  falseNegative :: real

definition confusion_counts :: "ndarray \<Rightarrow> ndarray \<Rightarrow> confusion" where
  "confusion_counts truthImage testImage =
     (let truthBinaryImage = binarize truthImage;
          testBinaryImage = binarize testImage;
          truthBinaryNegativeImage = negate_mask truthBinaryImage;
          testBinaryNegativeImage = negate_mask testBinaryImage
      in \<lparr> truePositive = float_sum (logical_and truthBinaryImage testBinaryImage),
           trueNegative = float_sum (logical_and truthBinaryNegativeImage testBinaryNegativeImage),
           falsePositive = float_sum (logical_and truthBinaryNegativeImage testBinaryImage),
           falseNegative = float_sum (logical_and truthBinaryImage testBinaryNegativeImage) \<rparr>)"

text \<open>The list of metrics, evaluated in the order of the source; the first failing division aborts.\<close>

definition image_metrics :: "ndarray \<Rightarrow> ndarray \<Rightarrow> exn + real metric list" where
  "image_metrics truthImage testImage =
     (let truthPixelSum = float_sum (binarize truthImage);
          testPixelSum = float_sum (binarize testImage);
          c = confusion_counts truthImage testImage;
          tp = truePositive c; tn = trueNegative c;
          fp = falsePositive c; fn = falseNegative c
      in bind_exn (float_div (tp + tn) (tp + tn + fp + fn)) (\<lambda>accuracy.
         bind_exn (float_div tp (tp + fn + fp)) (\<lambda>jaccard.
         bind_exn (float_div (2 * tp) (truthPixelSum + testPixelSum)) (\<lambda>dice.
         bind_exn (float_div tp (tp + fn)) (\<lambda>sensitivity.
         bind_exn (float_div tn (tn + fp)) (\<lambda>specificity.
           Inr [\<lparr> metric_name = ''accuracy'', metric_value = accuracy \<rparr>,
                \<lparr> metric_name = ''jaccard'', metric_value = jaccard \<rparr>,
                \<lparr> metric_name = ''dice'', metric_value = dice \<rparr>,
                \<lparr> metric_name = ''sensitivity'', metric_value = sensitivity \<rparr>,
                \<lparr> metric_name = ''specificity'', metric_value = specificity \<rparr>]))))))"

definition scoreP1Image ::
  "(8 word list \<Rightarrow> 8 word) \<Rightarrow> filesystem \<Rightarrow> string \<Rightarrow> string \<Rightarrow> exn + real metric list" where
  "scoreP1Image pop fs truthPath testPath =
     bind_exn (loadImage pop fs truthPath) (\<lambda>truthImage.
     bind_exn (loadImage pop fs testPath) (\<lambda>testImage.
       if shape testImage \<noteq> shape truthImage then
         Inl (Exception (''Image '' @ basename testPath @ '' has dimensions '' @
                         str_shape (shape testImage) @ ''; expected '' @
                         str_shape (shape truthImage) @ ''.''))
       else image_metrics truthImage testImage))"

subsection \<open>\<^verbatim>\<open>scoreP1\<close>\<close>

text \<open>
  The loop over \<^verbatim>\<open>sorted(os.listdir(truthDir))\<close>. The \<^verbatim>\<open>except\<close> clause re-raises, so
  the first exception ends the run without a result.
\<close>

fun scoreLoop ::
  "(8 word list \<Rightarrow> 8 word) \<Rightarrow> filesystem \<Rightarrow> string \<Rightarrow> string \<Rightarrow> string list \<Rightarrow>
   exn + real score list" where
  "scoreLoop pop fs truthDir testDir [] = Inr []"
| "scoreLoop pop fs truthDir testDir (truthFile # rest) =
     bind_exn (matchInputFile fs truthFile testDir) (\<lambda>testPath.
       let truthPath = path_join truthDir truthFile;
           datasetName = rsplit1_head CHR ''_'' truthFile
       in bind_exn (scoreP1Image pop fs truthPath testPath) (\<lambda>ms.
          bind_exn (scoreLoop pop fs truthDir testDir rest) (\<lambda>scores.
            Inr (\<lparr> dataset = datasetName, metrics = ms \<rparr> # scores))))"

definition scoreP1 ::
  "(8 word list \<Rightarrow> 8 word) \<Rightarrow> filesystem \<Rightarrow> string \<Rightarrow> string \<Rightarrow> exn + real score list" where
  "scoreP1 pop fs truthDir testDir =
     (case listing fs truthDir of
        None \<Rightarrow> Inl (OSError truthDir)
      | Some names \<Rightarrow> scoreLoop pop fs truthDir testDir (sort names))"

section \<open>Classification scoring: \<^verbatim>\<open>task3.py\<close>\<close>

subsection \<open>Tables\<close>

text \<open>
  A \<^verbatim>\<open>float64\<close> as far as the program looks at it: it is only compared, never computed
  with, so a finite value is the real number it denotes.
\<close>

datatype f64 = NaN | NegInf | PosInf | Fin real

fun f64_lt :: "f64 \<Rightarrow> f64 \<Rightarrow> bool" where
  "f64_lt (Fin a) (Fin b) = (a < b)"
| "f64_lt NegInf (Fin b) = True"
| "f64_lt NegInf PosInf = True"
| "f64_lt (Fin a) PosInf = True"
| "f64_lt _ _ = False"

text \<open>
  The content of one cell of a table read by \<^verbatim>\<open>pd.read_csv\<close>. A cell that is empty in the
  file is \<open>FloatCell NaN\<close>.
\<close>

datatype cell = FloatCell f64 | IntCell int | BoolCell bool | StrCell string

text \<open>
  A \<^verbatim>\<open>DataFrame\<close> indexed by image identifier: the column labels in order and, per row,
  the identifier with the cells of the row in the order of the columns.
\<close>

record dataframe =
  columns :: "string list"
  rows :: "(string \<times> cell list) list"

text \<open>
  The result of \<^verbatim>\<open>pd.read_csv(csvFileStream, header=0)\<close>: the cells of the column
  \<^verbatim>\<open>image\<close> (\<open>None\<close> when the header has no such column; identifiers are text), the
  labels of the other columns, and the cells of each record under these labels.
\<close>

record csv_table =
  image_ids :: "string list option"
  header :: "string list"
  records :: "cell list list"

type_synonym 'a series = "(string \<times> 'a) list"

definition CATEGORIES :: "string list" where
  "CATEGORIES = [''MEL'', ''NV'', ''BCC'', ''AKIEC'', ''BKL'', ''DF'', ''VASC'']"

definition EXCLUDE_LABELS :: "string list" where
  "EXCLUDE_LABELS = [''ISIC_0035068'']"

text \<open>\<^verbatim>\<open>Index.difference\<close>: the labels of the first index that the second lacks, unique and ascending.\<close>

definition index_difference :: "string list \<Rightarrow> string list \<Rightarrow> string list" where
  "index_difference xs ys = sort (remdups (filter (\<lambda>x. x \<notin> set ys) xs))"

text \<open>The cell of a row under a column label; \<^verbatim>\<open>reindex\<close> fills a column that is absent with NaN.\<close>

definition cell_at :: "string list \<Rightarrow> cell list \<Rightarrow> string \<Rightarrow> cell" where
  "cell_at cols r c = (case map_of (zip cols r) c of Some v \<Rightarrow> v | None \<Rightarrow> FloatCell NaN)"

definition reindex_columns :: "string list \<Rightarrow> dataframe \<Rightarrow> dataframe" where
  "reindex_columns cats df =
     \<lparr> columns = cats,
       rows = map (\<lambda>(l, r). (l, map (cell_at (columns df) r) cats)) (rows df) \<rparr>"

definition index :: "dataframe \<Rightarrow> string list" where
  "index df = map fst (rows df)"

definition isnull :: "cell \<Rightarrow> bool" where
  "isnull c = (c = FloatCell NaN)"

definition is_float :: "cell \<Rightarrow> bool" where
  "is_float c = (case c of FloatCell x \<Rightarrow> True | _ \<Rightarrow> False)"

text \<open>
  \<^verbatim>\<open>df.dtypes\<close>, as far as the program asks: pandas gives a column the type
  \<^verbatim>\<open>float64\<close> when it has cells and all of them are floats (a column without cells
  has the type \<^verbatim>\<open>object\<close>).
\<close>

definition column_cells :: "dataframe \<Rightarrow> string \<Rightarrow> cell list" where
  "column_cells df c = map (\<lambda>(l, r). cell_at (columns df) r c) (rows df)"

definition dtype_is_float64 :: "dataframe \<Rightarrow> string \<Rightarrow> bool" where
  "dtype_is_float64 df c = (column_cells df c \<noteq> [] \<and> list_all is_float (column_cells df c))"

text \<open>
  \<^verbatim>\<open>lambda x: x < 0.0 or x > 1.0\<close>. It is applied after the test of the column types, to
  floats only; on a number of another type Python compares the value.
\<close>

definition out_of_range :: "cell \<Rightarrow> bool" where
  "out_of_range c =
     (case c of
        FloatCell x \<Rightarrow> f64_lt x (Fin 0) \<or> f64_lt (Fin 1) x
      | IntCell i \<Rightarrow> i < 0 \<or> 1 < i
      | _ \<Rightarrow> False)"

text \<open>The text of a list of identifiers in a message (\<^verbatim>\<open>repr\<close> of plain names).\<close>

fun join_strings :: "string \<Rightarrow> string list \<Rightarrow> string" where
  "join_strings sep [] = []"
| "join_strings sep [x] = x"
| "join_strings sep (x # y # ys) = x @ sep @ join_strings sep (y # ys)"

definition repr_list :: "string list \<Rightarrow> string" where
  "repr_list xs = ''['' @ join_strings '', '' (map (\<lambda>x. [CHR 0x27] @ x @ [CHR 0x27]) xs) @ '']''"

subsection \<open>\<^verbatim>\<open>parseCsv\<close>\<close>

text \<open>
  \<^verbatim>\<open>set_index('image', verify_integrity=True)\<close> is the library's own test for duplicate
  identifiers: it raises \<^verbatim>\<open>ValueError\<close> with the list of the repeated identifiers
  (\<^verbatim>\<open>index.get_duplicates()\<close>, ascending), which the function does not catch.
\<close>

definition parseCsv :: "csv_table \<Rightarrow> exn + dataframe" where
  "parseCsv csv =
     (case image_ids csv of
        None \<Rightarrow> Inl (ScoreException ''Missing column in CSV: \"image\".'')
      | Some ids \<Rightarrow>
          if \<not> distinct ids then
            Inl (ValueError (''Index has duplicate keys: '' @
                             repr_list (sort (remdups (filter (\<lambda>i. 1 < count_list ids i) ids)))))
          else
            let probabilities = \<lparr> columns = header csv, rows = zip ids (records csv) \<rparr>;
                missingColumns = index_difference CATEGORIES (columns probabilities)
            in if missingColumns \<noteq> [] then
                 Inl (ScoreException (''Missing columns in CSV: '' @ repr_list missingColumns @ ''.''))
               else
                 let extraColumns = index_difference (columns probabilities) CATEGORIES
                 in if extraColumns \<noteq> [] then
                      Inl (ScoreException (''Extra columns in CSV: '' @ repr_list extraColumns @ ''.''))
                    else
                      let probabilities = reindex_columns CATEGORIES probabilities;
                          missingRows = map fst (filter (\<lambda>(l, r). list_ex isnull r) (rows probabilities))
                      in if missingRows \<noteq> [] then
                           Inl (ScoreException (''Missing value(s) in CSV for images: '' @
                                                repr_list missingRows @ ''.''))
                         else
                           let nonFloatColumns =
                                 filter (\<lambda>c. \<not> dtype_is_float64 probabilities c) (columns probabilities)
                           in if nonFloatColumns \<noteq> [] then
                                Inl (ScoreException
                                       (''CSV contains non-floating-point value(s) in columns: '' @
                                        repr_list nonFloatColumns @ ''.''))
                              else
                                let outOfRangeRows =
                                      map fst (filter (\<lambda>(l, r). list_ex out_of_range r) (rows probabilities))
                                in if outOfRangeRows \<noteq> [] then
                                     Inl (ScoreException
                                            (''Values in CSV are outside the interval [0.0, 1.0] for images: '' @
                                             repr_list outOfRangeRows @ ''.''))
                                   else Inr probabilities)"

subsection \<open>Row alignment\<close>

definition excludeRows :: "dataframe \<Rightarrow> string list \<Rightarrow> dataframe" where
  "excludeRows probabilities labels =
     probabilities\<lparr>rows := filter (\<lambda>(l, r). l \<notin> set labels) (rows probabilities)\<rparr>"

definition validateRows :: "dataframe \<Rightarrow> dataframe \<Rightarrow> exn + unit" where
  "validateRows truthProbabilities predictionProbabilities =
     (let missingImages = index_difference (index truthProbabilities) (index predictionProbabilities)
      in if missingImages \<noteq> [] then
           Inl (ScoreException (''Missing images in CSV: '' @ repr_list missingImages @ ''.''))
         else
           let extraImages = index_difference (index predictionProbabilities) (index truthProbabilities)
           in if extraImages \<noteq> [] then
                Inl (ScoreException (''Extra images in CSV: '' @ repr_list extraImages @ ''.''))
              else Inr ())"

definition sortRows :: "dataframe \<Rightarrow> dataframe" where
  "sortRows probabilities = probabilities\<lparr>rows := sort_key fst (rows probabilities)\<rparr>"

subsection \<open>\<^verbatim>\<open>computeMetrics\<close>\<close>

text \<open>
  The module \<^verbatim>\<open>isic_challenge_scoring.metrics\<close> is imported by \<^verbatim>\<open>task3.py\<close> and is not
  part of the sources at hand, so its functions are parameters: each is any function of
  its arguments that returns a value or raises.
\<close>

record 'v metrics_module =
  balancedMulticlassAccuracy :: "dataframe \<Rightarrow> dataframe \<Rightarrow> exn + 'v"
  binaryAccuracy :: "bool series \<Rightarrow> bool series \<Rightarrow> exn + 'v"
  binarySensitivity :: "bool series \<Rightarrow> bool series \<Rightarrow> exn + 'v"
  binarySpecificity :: "bool series \<Rightarrow> bool series \<Rightarrow> exn + 'v"
  binaryF1 :: "bool series \<Rightarrow> bool series \<Rightarrow> exn + 'v"
  binaryPpv :: "bool series \<Rightarrow> bool series \<Rightarrow> exn + 'v"
  binaryNpv :: "bool series \<Rightarrow> bool series \<Rightarrow> exn + 'v"
  auc :: "cell series \<Rightarrow> cell series \<Rightarrow> exn + 'v"
  aucAboveSensitivity :: "cell series \<Rightarrow> cell series \<Rightarrow> real \<Rightarrow> exn + 'v"

text \<open>\<^verbatim>\<open>df[category]\<close>: the column as a series over the index of the table.\<close>

definition getitem :: "dataframe \<Rightarrow> string \<Rightarrow> exn + cell series" where
  "getitem df c =
     (if c \<in> set (columns df)
      then Inr (map (\<lambda>(l, r). (l, cell_at (columns df) r c)) (rows df))
      else Inl (KeyError c))"

text \<open>\<^verbatim>\<open>series.gt(t)\<close>; the columns of a parsed table hold floats, and NaN is greater than nothing.\<close>

definition cell_gt :: "cell \<Rightarrow> real \<Rightarrow> bool" where
  "cell_gt c t =
     (case c of
        FloatCell x \<Rightarrow> f64_lt (Fin t) x
      | IntCell i \<Rightarrow> t < real_of_int i
      | BoolCell b \<Rightarrow> t < (if b then 1 else 0)
      | StrCell s \<Rightarrow> False)"

definition series_gt :: "cell series \<Rightarrow> real \<Rightarrow> bool series" where
  "series_gt s t = map (\<lambda>(l, c). (l, cell_gt c t)) s"

fun mapM_exn :: "('a \<Rightarrow> exn + 'b) \<Rightarrow> 'a list \<Rightarrow> exn + 'b list" where
  "mapM_exn f [] = Inr []"
| "mapM_exn f (x # xs) =
     bind_exn (f x) (\<lambda>y. bind_exn (mapM_exn f xs) (\<lambda>ys. Inr (y # ys)))"

text \<open>The body of the loop over \<^verbatim>\<open>CATEGORIES\<close>: one score, its metrics evaluated in order.\<close>

definition category_score ::
  "'v metrics_module \<Rightarrow> dataframe \<Rightarrow> dataframe \<Rightarrow> string \<Rightarrow> exn + 'v score" where
  "category_score m truthProbabilities predictionProbabilities category =
     bind_exn (getitem truthProbabilities category) (\<lambda>truthCategoryProbabilities.
     bind_exn (getitem predictionProbabilities category) (\<lambda>predictionCategoryProbabilities.
       let truthBinaryValues = series_gt truthCategoryProbabilities 0.5;
           predictionBinaryValues = series_gt predictionCategoryProbabilities 0.5
       in bind_exn (binaryAccuracy m truthBinaryValues predictionBinaryValues) (\<lambda>v1.
          bind_exn (binarySensitivity m truthBinaryValues predictionBinaryValues) (\<lambda>v2.
          bind_exn (binarySpecificity m truthBinaryValues predictionBinaryValues) (\<lambda>v3.
          bind_exn (binaryF1 m truthBinaryValues predictionBinaryValues) (\<lambda>v4.
          bind_exn (binaryPpv m truthBinaryValues predictionBinaryValues) (\<lambda>v5.
          bind_exn (binaryNpv m truthBinaryValues predictionBinaryValues) (\<lambda>v6.
          bind_exn (auc m truthCategoryProbabilities predictionCategoryProbabilities) (\<lambda>v7.
          bind_exn (aucAboveSensitivity m truthCategoryProbabilities
                      predictionCategoryProbabilities 0.80) (\<lambda>v8.
            Inr \<lparr> dataset = category,
                  metrics =
                    [\<lparr> metric_name = ''accuracy'', metric_value = v1 \<rparr>,
                     \<lparr> metric_name = ''sensitivity'', metric_value = v2 \<rparr>,
                     \<lparr> metric_name = ''specificity'', metric_value = v3 \<rparr>,
                     \<lparr> metric_name = ''f1_score'', metric_value = v4 \<rparr>,
                     \<lparr> metric_name = ''ppv'', metric_value = v5 \<rparr>,
                     \<lparr> metric_name = ''npv'', metric_value = v6 \<rparr>,
                     \<lparr> metric_name = ''auc'', metric_value = v7 \<rparr>,
                     \<lparr> metric_name = ''auc_sens_80'', metric_value = v8 \<rparr>] \<rparr>))))))))))"

definition computeMetrics ::
  "'v metrics_module \<Rightarrow> csv_table \<Rightarrow> csv_table \<Rightarrow> exn + 'v score list" where
  "computeMetrics m truthFileStream predictionFileStream =
     bind_exn (parseCsv truthFileStream) (\<lambda>truthParsed.
     bind_exn (parseCsv predictionFileStream) (\<lambda>predictionParsed.
       let truthExcluded = excludeRows truthParsed EXCLUDE_LABELS;
           predictionExcluded = excludeRows predictionParsed EXCLUDE_LABELS
       in bind_exn (validateRows truthExcluded predictionExcluded) (\<lambda>u.
            let truthProbabilities = sortRows truthExcluded;
                predictionProbabilities = sortRows predictionExcluded
            in bind_exn (balancedMulticlassAccuracy m truthProbabilities predictionProbabilities)
                 (\<lambda>balanced.
               bind_exn (mapM_exn (category_score m truthProbabilities predictionProbabilities)
                           CATEGORIES) (\<lambda>perCategory.
                 Inr (\<lparr> dataset = ''aggregate'',
                        metrics = [\<lparr> metric_name = ''balanced_accuracy'',
                                     metric_value = balanced \<rparr>] \<rparr> # perCategory))))))"

section \<open>Sample inputs and results\<close>

text \<open>A file system given by its directory listings and its decodable image files.\<close>

definition example_fs :: "(string \<times> string list) list \<Rightarrow> (string \<times> pil_image) list \<Rightarrow> filesystem" where
  "example_fs dirs imgs = \<lparr> listing = map_of dirs, decode = map_of imgs \<rparr>"

text \<open>A single-channel image of the given shape.\<close>

definition grey :: "nat \<times> nat \<Rightarrow> 8 word list \<Rightarrow> pil_image" where
  "grey s d = \<lparr> mode = ''L'', pixels = \<lparr> shape = s, data = d \<rparr> \<rparr>"

text \<open>The metrics of a perfect segmentation.\<close>

definition all_ones :: "real metric list" where
  "all_ones = [\<lparr> metric_name = ''accuracy'', metric_value = 1 \<rparr>,
                \<lparr> metric_name = ''jaccard'', metric_value = 1 \<rparr>,
                \<lparr> metric_name = ''dice'', metric_value = 1 \<rparr>,
                \<lparr> metric_name = ''sensitivity'', metric_value = 1 \<rparr>,
                \<lparr> metric_name = ''specificity'', metric_value = 1 \<rparr>]"

text \<open>
  A ground-truth table of three images, its columns out of the canonical order, with a
  row for the excluded image; the table that \<open>parseCsv\<close> makes of it; and the same
  ground truth without the excluded row and with the other rows swapped.
\<close>

definition example_truth :: csv_table where
  "example_truth =
     \<lparr> image_ids = Some [''ISIC_0000002'', ''ISIC_0035068'', ''ISIC_0000001''],
       header = [''NV'', ''MEL'', ''BCC'', ''AKIEC'', ''BKL'', ''DF'', ''VASC''],
       records =
         [[FloatCell (Fin 1), FloatCell (Fin 0), FloatCell (Fin 0), FloatCell (Fin 0),
           FloatCell (Fin 0), FloatCell (Fin 0), FloatCell (Fin 0)],
          [FloatCell (Fin 0), FloatCell (Fin 0), FloatCell (Fin 1), FloatCell (Fin 0),
           FloatCell (Fin 0), FloatCell (Fin 0), FloatCell (Fin 0)],
          [FloatCell (Fin 0), FloatCell (Fin 1), FloatCell (Fin 0), FloatCell (Fin 0),
           FloatCell (Fin 0), FloatCell (Fin 0), FloatCell (Fin 0)]] \<rparr>"

definition example_truth_parsed :: dataframe where
  "example_truth_parsed =
     \<lparr> columns = [''MEL'', ''NV'', ''BCC'', ''AKIEC'', ''BKL'', ''DF'', ''VASC''],
       rows =
         [(''ISIC_0000002'',
           [FloatCell (Fin 0), FloatCell (Fin 1), FloatCell (Fin 0), FloatCell (Fin 0),
            FloatCell (Fin 0), FloatCell (Fin 0), FloatCell (Fin 0)]),
          (''ISIC_0035068'',
           [FloatCell (Fin 0), FloatCell (Fin 0), FloatCell (Fin 1), FloatCell (Fin 0),
            FloatCell (Fin 0), FloatCell (Fin 0), FloatCell (Fin 0)]),
          (''ISIC_0000001'',
           [FloatCell (Fin 1), FloatCell (Fin 0), FloatCell (Fin 0), FloatCell (Fin 0),
            FloatCell (Fin 0), FloatCell (Fin 0), FloatCell (Fin 0)])] \<rparr>"

definition example_truth_short :: csv_table where
  "example_truth_short =
     \<lparr> image_ids = Some [''ISIC_0000001'', ''ISIC_0000002''],
       header = [''MEL'', ''NV'', ''BCC'', ''AKIEC'', ''BKL'', ''DF'', ''VASC''],
       records =
         [[FloatCell (Fin 1), FloatCell (Fin 0), FloatCell (Fin 0), FloatCell (Fin 0),
           FloatCell (Fin 0), FloatCell (Fin 0), FloatCell (Fin 0)],
          [FloatCell (Fin 0), FloatCell (Fin 1), FloatCell (Fin 0), FloatCell (Fin 0),
           FloatCell (Fin 0), FloatCell (Fin 0), FloatCell (Fin 0)]] \<rparr>"

definition example_truth_short_parsed :: dataframe where
  "example_truth_short_parsed =
     \<lparr> columns = [''MEL'', ''NV'', ''BCC'', ''AKIEC'', ''BKL'', ''DF'', ''VASC''],
       rows =
         [(''ISIC_0000001'',
           [FloatCell (Fin 1), FloatCell (Fin 0), FloatCell (Fin 0), FloatCell (Fin 0),
            FloatCell (Fin 0), FloatCell (Fin 0), FloatCell (Fin 0)]),
          (''ISIC_0000002'',
           [FloatCell (Fin 0), FloatCell (Fin 1), FloatCell (Fin 0), FloatCell (Fin 0),
            FloatCell (Fin 0), FloatCell (Fin 0), FloatCell (Fin 0)])] \<rparr>"

text \<open>
  Two submissions that give the same probabilities to the two scored images and
  different ones to the excluded image, and what \<open>parseCsv\<close> makes of them.
\<close>

definition example_prediction :: csv_table where
  "example_prediction =
     \<lparr> image_ids = Some [''ISIC_0000001'', ''ISIC_0000002'', ''ISIC_0035068''],
       header = [''MEL'', ''NV'', ''BCC'', ''AKIEC'', ''BKL'', ''DF'', ''VASC''],
       records =
         [[FloatCell (Fin 0.9), FloatCell (Fin 0.1), FloatCell (Fin 0), FloatCell (Fin 0),
           FloatCell (Fin 0), FloatCell (Fin 0), FloatCell (Fin 0)],
          [FloatCell (Fin 0.6), FloatCell (Fin 0.4), FloatCell (Fin 0), FloatCell (Fin 0),
           FloatCell (Fin 0), FloatCell (Fin 0), FloatCell (Fin 0)],
          [FloatCell (Fin 0), FloatCell (Fin 0), FloatCell (Fin 1), FloatCell (Fin 0),
           FloatCell (Fin 0), FloatCell (Fin 0), FloatCell (Fin 0)]] \<rparr>"

definition example_prediction_parsed :: dataframe where
  "example_prediction_parsed =
     \<lparr> columns = [''MEL'', ''NV'', ''BCC'', ''AKIEC'', ''BKL'', ''DF'', ''VASC''],
       rows =
         [(''ISIC_0000001'',
           [FloatCell (Fin 0.9), FloatCell (Fin 0.1), FloatCell (Fin 0), FloatCell (Fin 0),
            FloatCell (Fin 0), FloatCell (Fin 0), FloatCell (Fin 0)]),
          (''ISIC_0000002'',
           [FloatCell (Fin 0.6), FloatCell (Fin 0.4), FloatCell (Fin 0), FloatCell (Fin 0),
            FloatCell (Fin 0), FloatCell (Fin 0), FloatCell (Fin 0)]),
          (''ISIC_0035068'',
           [FloatCell (Fin 0), FloatCell (Fin 0), FloatCell (Fin 1), FloatCell (Fin 0),
            FloatCell (Fin 0), FloatCell (Fin 0), FloatCell (Fin 0)])] \<rparr>"

definition example_prediction_other :: csv_table where
  "example_prediction_other =
     \<lparr> image_ids = Some [''ISIC_0035068'', ''ISIC_0000001'', ''ISIC_0000002''],
       header = [''MEL'', ''NV'', ''BCC'', ''AKIEC'', ''BKL'', ''DF'', ''VASC''],
       records =
         [[FloatCell (Fin 0.5), FloatCell (Fin 0.5), FloatCell (Fin 0), FloatCell (Fin 0),
           FloatCell (Fin 0), FloatCell (Fin 0), FloatCell (Fin 0)],
          [FloatCell (Fin 0.9), FloatCell (Fin 0.1), FloatCell (Fin 0), FloatCell (Fin 0),
           FloatCell (Fin 0), FloatCell (Fin 0), FloatCell (Fin 0)],
          [FloatCell (Fin 0.6), FloatCell (Fin 0.4), FloatCell (Fin 0), FloatCell (Fin 0),
           FloatCell (Fin 0), FloatCell (Fin 0), FloatCell (Fin 0)]] \<rparr>"

definition example_prediction_other_parsed :: dataframe where
  "example_prediction_other_parsed =
     \<lparr> columns = [''MEL'', ''NV'', ''BCC'', ''AKIEC'', ''BKL'', ''DF'', ''VASC''],
       rows =
         [(''ISIC_0035068'',
           [FloatCell (Fin 0.5), FloatCell (Fin 0.5), FloatCell (Fin 0), FloatCell (Fin 0),
            FloatCell (Fin 0), FloatCell (Fin 0), FloatCell (Fin 0)]),
          (''ISIC_0000001'',
           [FloatCell (Fin 0.9), FloatCell (Fin 0.1), FloatCell (Fin 0), FloatCell (Fin 0),
            FloatCell (Fin 0), FloatCell (Fin 0), FloatCell (Fin 0)]),
          (''ISIC_0000002'',
           [FloatCell (Fin 0.6), FloatCell (Fin 0.4), FloatCell (Fin 0), FloatCell (Fin 0),
            FloatCell (Fin 0), FloatCell (Fin 0), FloatCell (Fin 0)])] \<rparr>"

text \<open>A table in which one identifier names two rows.\<close>

definition example_duplicate_ids :: csv_table where
  "example_duplicate_ids =
     \<lparr> image_ids = Some [''ISIC_0000001'', ''ISIC_0000001''],
       header = [''MEL'', ''NV'', ''BCC'', ''AKIEC'', ''BKL'', ''DF'', ''VASC''],
       records =
         [[FloatCell (Fin 1), FloatCell (Fin 0), FloatCell (Fin 0), FloatCell (Fin 0),
           FloatCell (Fin 0), FloatCell (Fin 0), FloatCell (Fin 0)],
          [FloatCell (Fin 1), FloatCell (Fin 0), FloatCell (Fin 0), FloatCell (Fin 0),
           FloatCell (Fin 0), FloatCell (Fin 0), FloatCell (Fin 0)]] \<rparr>"

text \<open>
  A stand-in for the metrics module: every metric is the number of rows it is given,
  the partial area is the sensitivity bound it is given.
\<close>

definition count_metrics :: "real metrics_module" where
  "count_metrics =
     \<lparr> balancedMulticlassAccuracy = (\<lambda>t p. Inr (real (length (rows t)))),
       binaryAccuracy = (\<lambda>t p. Inr (real (length t))),
       binarySensitivity = (\<lambda>t p. Inr (real (length t))),
       binarySpecificity = (\<lambda>t p. Inr (real (length t))),
       binaryF1 = (\<lambda>t p. Inr (real (length t))),
       binaryPpv = (\<lambda>t p. Inr (real (length t))),
       binaryNpv = (\<lambda>t p. Inr (real (length t))),
       auc = (\<lambda>t p. Inr (real (length t))),
       aucAboveSensitivity = (\<lambda>t p s. Inr s) \<rparr>"

text \<open>The names of the metrics of one category, in the order of the source.\<close>

definition category_metric_names :: "string list" where
  "category_metric_names =
     [''accuracy'', ''sensitivity'', ''specificity'', ''f1_score'', ''ppv'', ''npv'',
      ''auc'', ''auc_sens_80'']"

text \<open>
  A ground-truth directory with two masks whose names sort in one order and whose
  dataset identifiers sort in the other, a submission directory with one mask that both
  match, and the mask in each file.
\<close>

definition example_dirs :: filesystem where
  "example_dirs =
     example_fs
       [(''truth'', [''ISIC_1_Segmentation.png'', ''ISIC_1_2_Segmentation.png'']),
        (''sub'', [''ISIC_1.png''])]
       [(''truth/ISIC_1_Segmentation.png'', grey (1, 2) [0, 255]),
        (''truth/ISIC_1_2_Segmentation.png'', grey (1, 2) [0, 255]),
        (''sub/ISIC_1.png'', grey (1, 2) [0, 255])]"

section \<open>Properties of the segmentation pipeline\<close>

subsection \<open>Normalisation of the sample values\<close>

lemma set_np_unique: "set (np_unique a) = set (data a)"
  by (simp add: np_unique_def)










text \<open>
  An image with two distinct non-zero values also enters the rescaling branch. Its
  result depends on the element that \<open>pop\<close> returns and need not be within {0, 255}:
  the final test asks for a proper superset of {0, 255}, which an array of at most two
  values never is.
\<close>

lemma loadImage_two_nonzero_values:
  "loadImage hd (example_fs [] [(''m.png'', grey (1, 2) [100, 200])]) ''m.png'' =
     Inr \<lparr> shape = (1, 2), data = [255, 254] \<rparr>"
  by (simp add: loadImage_def example_fs_def grey_def np_unique_def imul_array_def
        idiv_array_def word_le_nat_alt Let_def psubset_eq)

text \<open>
  Claim C9. For an image whose sample values are all within {0, 255}, \<open>loadImage\<close>
  returns the decoded array unchanged.
\<close>

theorem loadImage_identity:
  assumes "decode fs p = Some img" and "mode img = ''L''"
    and "set (data (pixels img)) \<subseteq> {0, 255}"
  shows "loadImage pop fs p = Inr (pixels img)"
  using assms by (simp add: loadImage_def set_np_unique)

theorem loadImage_identity_witness:
  "loadImage hd (example_fs [] [(''m.png'', grey (2, 2) [0, 255, 255, 0])]) ''m.png'' =
     Inr \<lparr> shape = (2, 2), data = [0, 255, 255, 0] \<rparr>"
  using loadImage_identity
    [of "example_fs [] [(''m.png'', grey (2, 2) [0, 255, 255, 0])]" "''m.png''"
        "grey (2, 2) [0, 255, 255, 0]" hd]
  by (simp add: example_fs_def grey_def)

subsection \<open>Confusion counts\<close>

lemma sum_list_indicator:
  "sum_list (map (\<lambda>z. if P z then 1 else 0) zs) = int (length (filter P zs))"
  by (induction zs) auto

lemma negate_binarize:
  "negate_mask (binarize a) = map (\<lambda>v. if \<not> 128 < v then 1 else 0) (data a)"
  by (simp add: negate_mask_def binarize_def)

lemma float_sum_logical_and:
  "float_sum (logical_and (map (\<lambda>v. if P v then 1 else 0) xs) (map (\<lambda>v. if Q v then 1 else 0) ys)) =
     real (length (filter (\<lambda>(x, y). P x \<and> Q y) (zip xs ys)))"
proof -
  have "logical_and (map (\<lambda>v. if P v then 1 else 0) xs) (map (\<lambda>v. if Q v then 1 else 0) ys) =
          map (\<lambda>z. if (case z of (x, y) \<Rightarrow> P x \<and> Q y) then 1 else 0) (zip xs ys)"
    by (simp add: logical_and_def zip_map_map case_prod_unfold)
  then show ?thesis
    unfolding float_sum_def by (simp only: sum_list_indicator of_int_of_nat_eq)
qed

lemma float_sum_binarize:
  "float_sum (binarize a) = real (length (filter (\<lambda>v. 128 < v) (data a)))"
  unfolding float_sum_def binarize_def by (simp only: sum_list_indicator of_int_of_nat_eq)

text \<open>The four counts are the numbers of sample pairs on each side of the threshold.\<close>

lemma confusion_counts_filter:
  "truePositive (confusion_counts a b) =
     real (length (filter (\<lambda>(x, y). 128 < x \<and> 128 < y) (zip (data a) (data b))))"
  "trueNegative (confusion_counts a b) =
     real (length (filter (\<lambda>(x, y). \<not> 128 < x \<and> \<not> 128 < y) (zip (data a) (data b))))"
  "falsePositive (confusion_counts a b) =
     real (length (filter (\<lambda>(x, y). \<not> 128 < x \<and> 128 < y) (zip (data a) (data b))))"
  "falseNegative (confusion_counts a b) =
     real (length (filter (\<lambda>(x, y). 128 < x \<and> \<not> 128 < y) (zip (data a) (data b))))"
  unfolding confusion_counts_def Let_def negate_binarize
  unfolding binarize_def
  by (simp_all only: confusion.simps float_sum_logical_and)

lemma four_way_partition:
  "length (filter (\<lambda>(x, y). P x \<and> Q y) zs) + length (filter (\<lambda>(x, y). \<not> P x \<and> \<not> Q y) zs) +
   length (filter (\<lambda>(x, y). \<not> P x \<and> Q y) zs) + length (filter (\<lambda>(x, y). P x \<and> \<not> Q y) zs) =
   length zs"
  by (induction zs) auto

lemma self_counts:
  "length (filter (\<lambda>(x, y). P x \<and> P y) (zip xs xs)) = length (filter P xs)"
  "length (filter (\<lambda>(x, y). \<not> P x \<and> \<not> P y) (zip xs xs)) = length (filter (\<lambda>x. \<not> P x) xs)"
  "length (filter (\<lambda>(x, y). \<not> P x \<and> P y) (zip xs xs)) = 0"
  "length (filter (\<lambda>(x, y). P x \<and> \<not> P y) (zip xs xs)) = 0"
  by (induction xs) auto

text \<open>
  Claim C6. For two well-formed arrays of the same shape the four confusion counts are
  non-negative and add up to the number of samples of one array.
\<close>

theorem confusion_counts_sum:
  assumes "wf_array a" and "wf_array b" and "shape a = shape b"
  shows "0 \<le> truePositive (confusion_counts a b) \<and> 0 \<le> trueNegative (confusion_counts a b) \<and>
         0 \<le> falsePositive (confusion_counts a b) \<and> 0 \<le> falseNegative (confusion_counts a b) \<and>
         truePositive (confusion_counts a b) + trueNegative (confusion_counts a b) +
         falsePositive (confusion_counts a b) + falseNegative (confusion_counts a b) =
           real (fst (shape a) * snd (shape a))"
proof -
  have len: "length (data a) = length (data b)" "length (data a) = fst (shape a) * snd (shape a)"
    using assms by (simp_all add: wf_array_def)
  have "length (zip (data a) (data b)) = fst (shape a) * snd (shape a)"
    using len by simp
  then have "real (length (filter (\<lambda>(x, y). 128 < x \<and> 128 < y) (zip (data a) (data b))) +
     length (filter (\<lambda>(x, y). \<not> 128 < x \<and> \<not> 128 < y) (zip (data a) (data b))) +
     length (filter (\<lambda>(x, y). \<not> 128 < x \<and> 128 < y) (zip (data a) (data b))) +
     length (filter (\<lambda>(x, y). 128 < x \<and> \<not> 128 < y) (zip (data a) (data b)))) =
     real (fst (shape a) * snd (shape a))"
    by (simp only: four_way_partition)
  then show ?thesis
    by (simp add: confusion_counts_filter)
qed

theorem confusion_counts_sum_witness:
  "truePositive (confusion_counts \<lparr>shape = (2, 2), data = [255, 0, 0, 255]\<rparr>
                                  \<lparr>shape = (2, 2), data = [0, 255, 255, 0]\<rparr>) +
   trueNegative (confusion_counts \<lparr>shape = (2, 2), data = [255, 0, 0, 255]\<rparr>
                                  \<lparr>shape = (2, 2), data = [0, 255, 255, 0]\<rparr>) +
   falsePositive (confusion_counts \<lparr>shape = (2, 2), data = [255, 0, 0, 255]\<rparr>
                                   \<lparr>shape = (2, 2), data = [0, 255, 255, 0]\<rparr>) +
   falseNegative (confusion_counts \<lparr>shape = (2, 2), data = [255, 0, 0, 255]\<rparr>
                                   \<lparr>shape = (2, 2), data = [0, 255, 255, 0]\<rparr>) = 4"
  using confusion_counts_sum
    [of "\<lparr>shape = (2, 2), data = [255, 0, 0, 255]\<rparr>" "\<lparr>shape = (2, 2), data = [0, 255, 255, 0]\<rparr>"]
  by (simp add: wf_array_def)

text \<open>The counts of the inverted 2 by 2 mask: no sample agrees.\<close>

lemma confusion_counts_inverted:
  "confusion_counts \<lparr>shape = (2, 2), data = [255, 0, 0, 255]\<rparr>
                    \<lparr>shape = (2, 2), data = [0, 255, 255, 0]\<rparr> =
     \<lparr> truePositive = 0, trueNegative = 0, falsePositive = 2, falseNegative = 2 \<rparr>"
  by (simp add: confusion_counts_def binarize_def negate_mask_def logical_and_def float_sum_def)

subsection \<open>Scoring one pair of images\<close>


text \<open>The threshold at its edge: 128 is negative, 129 is positive.\<close>

lemma binarize_threshold_edge:
  "binarize \<lparr>shape = (1, 3), data = [127, 128, 129]\<rparr> = [0, 0, 1]"
  by (simp add: binarize_def)



text \<open>
  An array scored against itself has no false positive and no false negative. The
  metrics are all 1 when it has a sample on each side of the threshold; without a
  positive sample or without a negative one a divisor is zero.
\<close>

lemma image_metrics_self:
  "image_metrics a a =
     (if (\<exists>v \<in> set (data a). 128 < v) \<and> (\<exists>v \<in> set (data a). \<not> 128 < v)
      then Inr all_ones
      else Inl (ZeroDivisionError ''float division by zero''))"
proof -
  let ?P = "length (filter (\<lambda>v. 128 < v) (data a))"
  let ?N = "length (filter (\<lambda>v. \<not> 128 < v) (data a))"
  have P: "(\<exists>v \<in> set (data a). 128 < v) \<longleftrightarrow> 0 < ?P"
    by (simp add: filter_empty_conv)
  have N: "(\<exists>v \<in> set (data a). \<not> 128 < v) \<longleftrightarrow> 0 < ?N"
    by (simp add: filter_empty_conv)
  have c: "truePositive (confusion_counts a a) = real ?P"
    "trueNegative (confusion_counts a a) = real ?N"
    "falsePositive (confusion_counts a a) = 0"
    "falseNegative (confusion_counts a a) = 0"
    by (simp_all only: confusion_counts_filter self_counts)
  show ?thesis
    unfolding P N image_metrics_def Let_def c float_sum_binarize
    by (cases "?P = 0"; cases "?N = 0")
       (simp_all add: float_div_def bind_exn_def all_ones_def add_nonneg_eq_0_iff)
qed

text \<open>
  Claim C3, as the code has it. A normalised mask scored against itself yields accuracy,
  jaccard, dice, sensitivity and specificity 1.0 when it holds both a 255 and a 0; a
  mask without a 255 or without a 0 raises \<^verbatim>\<open>ZeroDivisionError\<close>.
\<close>

theorem self_score:
  assumes "loadImage pop fs truthPath = Inr a" and "loadImage pop fs testPath = Inr a"
    and "set (data a) \<subseteq> {0, 255}"
  shows "scoreP1Image pop fs truthPath testPath =
     (if 255 \<in> set (data a) \<and> 0 \<in> set (data a)
      then Inr all_ones
      else Inl (ZeroDivisionError ''float division by zero''))"
proof -
  have hi: "(128::8 word) < 255" and lo: "\<not> (128::8 word) < 0"
    by simp_all
  have "(\<exists>v \<in> set (data a). 128 < v) \<longleftrightarrow> 255 \<in> set (data a)"
  proof
    assume "\<exists>v \<in> set (data a). 128 < v"
    then obtain v where v: "v \<in> set (data a)" "128 < v" by blast
    then have "v = 0 \<or> v = 255" using assms(3) by auto
    then show "255 \<in> set (data a)" using v lo by auto
  next
    assume "255 \<in> set (data a)"
    then show "\<exists>v \<in> set (data a). 128 < v" using hi by blast
  qed
  moreover have "(\<exists>v \<in> set (data a). \<not> 128 < v) \<longleftrightarrow> 0 \<in> set (data a)"
  proof
    assume "\<exists>v \<in> set (data a). \<not> 128 < v"
    then obtain v where v: "v \<in> set (data a)" "\<not> 128 < v" by blast
    then have "v = 0 \<or> v = 255" using assms(3) by auto
    then show "0 \<in> set (data a)" using v hi by auto
  next
    assume "0 \<in> set (data a)"
    then show "\<exists>v \<in> set (data a). \<not> 128 < v" using lo by blast
  qed
  ultimately show ?thesis
    using assms(1,2) by (simp add: scoreP1Image_def bind_exn_def image_metrics_self)
qed

theorem self_score_witness:
  "scoreP1Image hd (example_fs [] [(''m.png'', grey (1, 2) [0, 255])]) ''m.png'' ''m.png'' =
     Inr all_ones"
proof -
  have l: "loadImage hd (example_fs [] [(''m.png'', grey (1, 2) [0, 255])]) ''m.png'' =
      Inr \<lparr> shape = (1, 2), data = [0, 255] \<rparr>"
    by (simp add: loadImage_def example_fs_def grey_def np_unique_def)
  show ?thesis using self_score [OF l l] by simp
qed

text \<open>The all-zero mask scored against itself: the jaccard index divides by zero.\<close>

theorem self_score_counterexample:
  "scoreP1Image hd (example_fs [] [(''m.png'', grey (1, 2) [0, 0])]) ''m.png'' ''m.png'' =
     Inl (ZeroDivisionError ''float division by zero'')"
  by (simp add: scoreP1Image_def loadImage_def example_fs_def grey_def np_unique_def
        bind_exn_def image_metrics_def confusion_counts_def binarize_def negate_mask_def
        logical_and_def float_sum_def float_div_def Let_def)

subsection \<open>Matching a submission to a ground-truth file\<close>

lemma startswith_iff: "startswith s p \<longleftrightarrow> (\<exists>b. s = p @ b)"
  by (induction s p rule: startswith.induct) auto

text \<open>\<open>str_in\<close> is the substring relation.\<close>

lemma str_in_iff: "str_in p s \<longleftrightarrow> (\<exists>a b. s = a @ p @ b)"
proof (induction s)
  case Nil
  then show ?case by simp
next
  case (Cons x xs)
  have "(\<exists>a b. x # xs = a @ p @ b) \<longleftrightarrow> (\<exists>b. x # xs = p @ b) \<or> (\<exists>a b. xs = a @ p @ b)"
  proof
    assume "\<exists>a b. x # xs = a @ p @ b"
    then obtain a b where ab: "x # xs = a @ p @ b" by blast
    show "(\<exists>b. x # xs = p @ b) \<or> (\<exists>a b. xs = a @ p @ b)"
    proof (cases a)
      case Nil
      then show ?thesis using ab by auto
    next
      case (Cons y ys)
      then have "xs = ys @ p @ b" using ab by simp
      then show ?thesis by blast
    qed
  next
    assume "(\<exists>b. x # xs = p @ b) \<or> (\<exists>a b. xs = a @ p @ b)"
    then show "\<exists>a b. x # xs = a @ p @ b"
    proof
      assume "\<exists>b. x # xs = p @ b"
      then obtain b where "x # xs = [] @ p @ b" by auto
      then show ?thesis by blast
    next
      assume "\<exists>a b. xs = a @ p @ b"
      then obtain a b where "x # xs = (x # a) @ p @ b" by auto
      then show ?thesis by blast
    qed
  qed
  then show ?case using Cons by (simp add: startswith_iff)
qed

lemma split_on_no_separator: "c \<notin> set s \<Longrightarrow> split_on c s = [s]"
  by (induction s) (auto split: list.splits)

lemma split_on_first: "\<exists>rest. split_on c s = takeWhile (\<lambda>x. x \<noteq> c) s # rest"
  by (induction s) (auto split: list.splits)

text \<open>The second token of a name with a separator: the text after the first separator, up to the next.\<close>

lemma split_on_second:
  "c \<in> set s \<Longrightarrow>
     \<exists>rest. split_on c s =
       takeWhile (\<lambda>x. x \<noteq> c) s # takeWhile (\<lambda>x. x \<noteq> c) (tl (dropWhile (\<lambda>x. x \<noteq> c) s)) # rest"
proof (induction s)
  case Nil
  then show ?case by simp
next
  case (Cons x xs)
  show ?case
  proof (cases "x = c")
    case True
    then show ?thesis using split_on_first [of c xs] by auto
  next
    case False
    then have "c \<in> set xs" using Cons.prems by auto
    then show ?thesis using Cons.IH False by auto
  qed
qed

lemma matchLoop_find:
  assumes "split_on CHR ''_'' truthFile = t0 # tok # rest"
  shows "matchLoop truthFile testDir names =
     (case find (str_in tok) names of
        Some c \<Rightarrow> Inr (path_join testDir c)
      | None \<Rightarrow> Inl (Exception (''No matching submission image for: '' @ truthFile)))"
  using assms by (induction names) auto

lemma find_Some_member: "find P xs = Some x \<Longrightarrow> P x \<and> x \<in> set xs"
  by (induction xs) (auto split: if_splits)

text \<open>
  Claim C7, as the code has it. For a ground-truth name with an underscore and a
  listed directory, \<open>matchInputFile\<close> returns the path of the first listed name that
  contains the second token of the ground-truth name; it raises the no-match error
  exactly when no listed name contains the token, and raises nothing else.
\<close>

theorem matchInputFile_first_match:
  assumes "CHR ''_'' \<in> set truthFile" and "listing fs testDir = Some names"
  shows "let tok = takeWhile (\<lambda>x. x \<noteq> CHR ''_'') (tl (dropWhile (\<lambda>x. x \<noteq> CHR ''_'') truthFile));
             noMatch = Inl (Exception (''No matching submission image for: '' @ truthFile))
         in matchInputFile fs truthFile testDir =
              (case find (\<lambda>c. \<exists>a b. c = a @ tok @ b) names of
                 Some c \<Rightarrow> Inr (path_join testDir c)
               | None \<Rightarrow> noMatch) \<and>
            (matchInputFile fs truthFile testDir = noMatch \<longleftrightarrow>
               (\<forall>c \<in> set names. \<not> (\<exists>a b. c = a @ tok @ b))) \<and>
            (\<forall>e. matchInputFile fs truthFile testDir = Inl e \<longrightarrow>
               matchInputFile fs truthFile testDir = noMatch)"
proof -
  define tok where
    "tok = takeWhile (\<lambda>x. x \<noteq> CHR ''_'') (tl (dropWhile (\<lambda>x. x \<noteq> CHR ''_'') truthFile))"
  obtain rest where sp:
    "split_on CHR ''_'' truthFile = takeWhile (\<lambda>x. x \<noteq> CHR ''_'') truthFile # tok # rest"
    using split_on_second [OF assms(1)] unfolding tok_def by blast
  have eq: "str_in tok = (\<lambda>c. \<exists>a b. c = a @ tok @ b)"
    by (rule ext) (simp add: str_in_iff)
  have m: "matchInputFile fs truthFile testDir =
       (case find (\<lambda>c. \<exists>a b. c = a @ tok @ b) names of
          Some c \<Rightarrow> Inr (path_join testDir c)
        | None \<Rightarrow> Inl (Exception (''No matching submission image for: '' @ truthFile)))"
    using assms(2) by (simp add: matchInputFile_def matchLoop_find [OF sp] eq)
  show ?thesis
  proof (cases "find (\<lambda>c. \<exists>a b. c = a @ tok @ b) names")
    case None
    then have "\<forall>c \<in> set names. \<not> (\<exists>a b. c = a @ tok @ b)"
      by (simp add: find_None_iff)
    then show ?thesis
      unfolding Let_def tok_def [symmetric] m using None by simp
  next
    case (Some c)
    from find_Some_member [OF Some] have "\<exists>c \<in> set names. \<exists>a b. c = a @ tok @ b"
      by blast
    then show ?thesis
      unfolding Let_def tok_def [symmetric] m using Some by simp
  qed
qed

theorem matchInputFile_first_match_witness:
  "matchInputFile
     (example_fs [(''sub'', [''ISIC_0000001.png'', ''ISIC_0000003.png'', ''x0000003.png''])] [])
     ''ISIC_0000003_Segmentation.png'' ''sub'' = Inr ''sub/ISIC_0000003.png''"
  using matchInputFile_first_match [of "''ISIC_0000003_Segmentation.png''"
      "example_fs [(''sub'', [''ISIC_0000001.png'', ''ISIC_0000003.png'', ''x0000003.png''])] []"
      "''sub''" "[''ISIC_0000001.png'', ''ISIC_0000003.png'', ''x0000003.png'']"]
  by (simp add: example_fs_def Let_def str_in_iff [symmetric] path_join_def)

text \<open>A ground-truth name without an underscore: the index of the second token is out of range.\<close>

theorem matchInputFile_first_match_counterexample:
  "matchInputFile (example_fs [(''sub'', [''ISIC0000003.png''])] []) ''ISIC0000003.png'' ''sub'' =
     Inl (IndexError ''list index out of range'')"
  by (simp add: matchInputFile_def example_fs_def)

section \<open>Properties of the classification pipeline\<close>

subsection \<open>The table that \<^verbatim>\<open>parseCsv\<close> returns\<close>

lemma cell_at_reindexed:
  "c \<in> set cats \<Longrightarrow> cell_at cats (map f cats) c = f c"
  by (simp add: cell_at_def map_of_zip_map)

lemma in_range_float:
  assumes "is_float v" and "\<not> isnull v" and "\<not> out_of_range v"
  shows "\<exists>x. v = FloatCell (Fin x) \<and> 0 \<le> x \<and> x \<le> 1"
proof (cases v)
  case (FloatCell y)
  then show ?thesis
    using assms by (cases y) (auto simp: isnull_def out_of_range_def)
qed (use assms in \<open>auto simp: is_float_def\<close>)

text \<open>What a successful run of \<open>parseCsv\<close> has checked.\<close>

lemma parseCsv_Inr:
  assumes "parseCsv csv = Inr t"
  obtains ids where "image_ids csv = Some ids" and "distinct ids"
    and "t = reindex_columns CATEGORIES \<lparr> columns = header csv, rows = zip ids (records csv) \<rparr>"
    and "\<forall>(l, r) \<in> set (rows t). \<not> list_ex isnull r"
    and "\<forall>c \<in> set (columns t). dtype_is_float64 t c"
    and "\<forall>(l, r) \<in> set (rows t). \<not> list_ex out_of_range r"
proof -
  from assms obtain ids where ids: "image_ids csv = Some ids"
    by (auto simp: parseCsv_def split: option.splits)
  let ?t = "reindex_columns CATEGORIES \<lparr> columns = header csv, rows = zip ids (records csv) \<rparr>"
  from assms ids have d: "distinct ids"
    by (auto simp: parseCsv_def split: if_splits)
  from assms ids d have t: "t = ?t"
    by (auto simp: parseCsv_def Let_def split: if_splits)
  from assms ids d have a: "filter (\<lambda>(l, r). list_ex isnull r) (rows ?t) = []"
    by (auto simp: parseCsv_def Let_def split: if_splits)
  from assms ids d have b: "filter (\<lambda>c. \<not> dtype_is_float64 ?t c) (columns ?t) = []"
    by (auto simp: parseCsv_def Let_def split: if_splits)
  from assms ids d have c: "filter (\<lambda>(l, r). list_ex out_of_range r) (rows ?t) = []"
    by (auto simp: parseCsv_def Let_def split: if_splits)
  show ?thesis
  proof (rule that [OF ids d t])
    show "\<forall>(l, r) \<in> set (rows t). \<not> list_ex isnull r"
      using a unfolding t filter_empty_conv by auto
    show "\<forall>c \<in> set (columns t). dtype_is_float64 t c"
      using b unfolding t filter_empty_conv by auto
    show "\<forall>(l, r) \<in> set (rows t). \<not> list_ex out_of_range r"
      using c unfolding t filter_empty_conv by auto
  qed
qed

lemma parseCsv_columns:
  assumes "parseCsv csv = Inr t"
  shows "columns t = CATEGORIES"
  using assms by (elim parseCsv_Inr) (simp add: reindex_columns_def)

lemma parseCsv_rows:
  assumes "parseCsv csv = Inr t" and "image_ids csv = Some ids"
  shows "rows t = map (\<lambda>(l, r). (l, map (cell_at (header csv) r) CATEGORIES))
                      (zip ids (records csv))"
  using assms by (elim parseCsv_Inr) (simp add: reindex_columns_def)

lemma parseCsv_distinct_index:
  assumes "parseCsv csv = Inr t"
  shows "distinct (index t)"
proof -
  from assms obtain ids where ids: "image_ids csv = Some ids" and d: "distinct ids"
    by (rule parseCsv_Inr)
  have "index t = map fst (zip ids (records csv))"
    by (simp add: index_def parseCsv_rows [OF assms ids] case_prod_unfold comp_def)
  then show ?thesis
    using d by (simp add: map_fst_zip_take distinct_take)
qed

lemma parseCsv_cells:
  assumes "parseCsv csv = Inr t" and lr: "(l, r) \<in> set (rows t)"
  shows "length r = 7 \<and> (\<forall>v \<in> set r. \<exists>x. v = FloatCell (Fin x) \<and> 0 \<le> x \<and> x \<le> 1)"
proof
  from assms(1) obtain ids where ids: "image_ids csv = Some ids"
    and nn: "\<forall>(l, r) \<in> set (rows t). \<not> list_ex isnull r"
    and fl: "\<forall>c \<in> set (columns t). dtype_is_float64 t c"
    and rg: "\<forall>(l, r) \<in> set (rows t). \<not> list_ex out_of_range r"
    by (rule parseCsv_Inr)
  note cols = parseCsv_columns [OF assms(1)]
  from lr obtain r0 where r: "r = map (cell_at (header csv) r0) CATEGORIES"
    unfolding parseCsv_rows [OF assms(1) ids] by auto
  show "length r = 7" by (simp add: r CATEGORIES_def)
  show "\<forall>v \<in> set r. \<exists>x. v = FloatCell (Fin x) \<and> 0 \<le> x \<and> x \<le> 1"
  proof
    fix v assume v: "v \<in> set r"
    then obtain c where c: "c \<in> set CATEGORIES" and vc: "v = cell_at (header csv) r0 c"
      unfolding r by auto
    have "cell_at (columns t) r c = v"
      unfolding cols r vc by (rule cell_at_reindexed [OF c])
    then have "v \<in> set (column_cells t c)"
      using lr by (force simp: column_cells_def)
    moreover have "list_all is_float (column_cells t c)"
      using fl c cols by (simp add: dtype_is_float64_def)
    ultimately have "is_float v" by (simp add: list_all_iff)
    moreover have "\<not> isnull v" using nn lr v by (auto simp: list_ex_iff)
    moreover have "\<not> out_of_range v" using rg lr v by (auto simp: list_ex_iff)
    ultimately show "\<exists>x. v = FloatCell (Fin x) \<and> 0 \<le> x \<and> x \<le> 1"
      by (rule in_range_float)
  qed
qed

lemma parseCsv_example_truth: "parseCsv example_truth = Inr example_truth_parsed"
  by (simp add: parseCsv_def example_truth_def example_truth_parsed_def CATEGORIES_def
      index_difference_def reindex_columns_def cell_at_def isnull_def dtype_is_float64_def
      column_cells_def is_float_def out_of_range_def Let_def)

lemma parseCsv_example_truth_short:
  "parseCsv example_truth_short = Inr example_truth_short_parsed"
  by (simp add: parseCsv_def example_truth_short_def example_truth_short_parsed_def
      CATEGORIES_def index_difference_def reindex_columns_def cell_at_def isnull_def
      dtype_is_float64_def column_cells_def is_float_def out_of_range_def Let_def)

lemma parseCsv_example_prediction:
  "parseCsv example_prediction = Inr example_prediction_parsed"
  by (simp add: parseCsv_def example_prediction_def example_prediction_parsed_def
      CATEGORIES_def index_difference_def reindex_columns_def cell_at_def isnull_def
      dtype_is_float64_def column_cells_def is_float_def out_of_range_def Let_def)

lemma parseCsv_example_prediction_other:
  "parseCsv example_prediction_other = Inr example_prediction_other_parsed"
  by (simp add: parseCsv_def example_prediction_other_def example_prediction_other_parsed_def
      CATEGORIES_def index_difference_def reindex_columns_def cell_at_def isnull_def
      dtype_is_float64_def column_cells_def is_float_def out_of_range_def Let_def)

text \<open>
  Claim C2. A table that \<open>parseCsv\<close> returns has exactly the seven category columns in
  the canonical order, whatever the order of the columns read; its row keys are
  distinct; every row has seven cells, each a finite float between 0.0 and 1.0 (so none
  is missing); and each row holds, under each category, the cell that the record read
  has under that category.
\<close>

theorem parseCsv_invariant:
  assumes "parseCsv csv = Inr t"
  shows "columns t = [''MEL'', ''NV'', ''BCC'', ''AKIEC'', ''BKL'', ''DF'', ''VASC''] \<and>
         distinct (index t) \<and>
         (\<forall>(l, r) \<in> set (rows t). length r = 7 \<and>
            (\<forall>v \<in> set r. \<exists>x. v = FloatCell (Fin x) \<and> 0 \<le> x \<and> x \<le> 1)) \<and>
         (\<exists>ids. image_ids csv = Some ids \<and>
            rows t = map (\<lambda>(l, r). (l, map (cell_at (header csv) r) (columns t)))
                         (zip ids (records csv)))"
proof -
  from assms obtain ids where ids: "image_ids csv = Some ids"
    by (rule parseCsv_Inr)
  note cols = parseCsv_columns [OF assms]
  have c7: "columns t = [''MEL'', ''NV'', ''BCC'', ''AKIEC'', ''BKL'', ''DF'', ''VASC'']"
    using cols by (simp add: CATEGORIES_def)
  have every: "\<forall>(l, r) \<in> set (rows t). length r = 7 \<and>
            (\<forall>v \<in> set r. \<exists>x. v = FloatCell (Fin x) \<and> 0 \<le> x \<and> x \<le> 1)"
    using parseCsv_cells [OF assms] by blast
  have ex: "\<exists>ids. image_ids csv = Some ids \<and>
            rows t = map (\<lambda>(l, r). (l, map (cell_at (header csv) r) (columns t)))
                         (zip ids (records csv))"
    using ids parseCsv_rows [OF assms ids] unfolding cols by blast
  from c7 parseCsv_distinct_index [OF assms] every ex show ?thesis by (intro conjI)
qed

theorem parseCsv_invariant_witness:
  "columns example_truth_parsed = [''MEL'', ''NV'', ''BCC'', ''AKIEC'', ''BKL'', ''DF'', ''VASC''] \<and>
   distinct (index example_truth_parsed) \<and>
   rows example_truth_parsed =
     map (\<lambda>(l, r). (l, map (cell_at (header example_truth) r) (columns example_truth_parsed)))
         (zip [''ISIC_0000002'', ''ISIC_0035068'', ''ISIC_0000001''] (records example_truth))"
  using parseCsv_invariant [OF parseCsv_example_truth]
  by (simp add: example_truth_def)

subsection \<open>Failures of \<^verbatim>\<open>parseCsv\<close>\<close>

text \<open>
  Claim C8 asks that every validation failure be of the one reportable kind, a table
  with a repeated row key included. Here the table with a repeated key fails, while
  it is parsed, with the \<^verbatim>\<open>ValueError\<close> of the library, which is not of that kind.
\<close>

theorem parseCsv_duplicate_ids:
  "parseCsv example_duplicate_ids =
     Inl (ValueError (''Index has duplicate keys: '' @ repr_list [''ISIC_0000001''])) \<and>
   \<not> reportable (ValueError (''Index has duplicate keys: '' @ repr_list [''ISIC_0000001'']))"
  by (simp add: parseCsv_def example_duplicate_ids_def reportable_def)

text \<open>
  Every other failure of \<open>parseCsv\<close> is a \<^verbatim>\<open>ScoreException\<close>, and every failure of
  \<open>loadImage\<close> is an \<^verbatim>\<open>Exception\<close> raised by the function itself.
\<close>

lemma parseCsv_other_failures:
  assumes "parseCsv csv = Inl e" and "\<forall>ids. image_ids csv = Some ids \<longrightarrow> distinct ids"
  shows "\<exists>msg. e = ScoreException msg"
  using assms by (auto simp: parseCsv_def Let_def split: option.splits if_splits)

lemma loadImage_failures:
  assumes "loadImage pop fs p = Inl e"
  shows "\<exists>msg. e = Exception msg"
  using assms
  by (auto simp: loadImage_def msg_not_0_255_def Let_def split: option.splits if_splits)

subsection \<open>Row alignment\<close>

lemma distinct_keys_sort_key:
  assumes "distinct (map f xs)"
  shows "distinct (map f (sort_key f xs))"
proof -
  have "card (f ` set xs) = length xs"
    using assms by (metis distinct_card length_map set_map)
  then have "card (set (map f (sort_key f xs))) = length (map f (sort_key f xs))"
    by simp
  then show ?thesis by (rule card_distinct)
qed

text \<open>Sorting rows with distinct keys gives one result for every order of the rows.\<close>

lemma sort_key_unique:
  assumes dx: "distinct (map f xs)" and dy: "distinct (map f ys)" and s: "set xs = set ys"
  shows "sort_key f xs = sort_key f ys"
proof (rule map_sorted_distinct_set_unique [where f = f])
  have "inj_on f (set xs)" using dx by (simp add: distinct_map)
  then show "inj_on f (set (sort_key f xs) \<union> set (sort_key f ys))"
    using s by simp
  show "sorted (map f (sort_key f xs))" by (rule sorted_sort_key)
  show "sorted (map f (sort_key f ys))" by (rule sorted_sort_key)
  show "distinct (map f (sort_key f xs))" by (rule distinct_keys_sort_key [OF dx])
  show "distinct (map f (sort_key f ys))" by (rule distinct_keys_sort_key [OF dy])
  show "set (sort_key f xs) = set (sort_key f ys)" using s by simp
qed

lemma index_difference_sets:
  assumes "set xs = set xs'" and "set ys = set ys'"
  shows "index_difference xs ys = index_difference xs' ys'"
proof -
  have "sort (remdups (filter (\<lambda>x. x \<notin> set ys) xs)) =
        sort (remdups (filter (\<lambda>x. x \<notin> set ys') xs'))"
    by (rule sorted_distinct_set_unique) (use assms in auto)
  then show ?thesis by (simp add: index_difference_def)
qed

lemma index_difference_empty:
  assumes "set xs \<subseteq> set ys"
  shows "index_difference xs ys = []"
proof -
  have "filter (\<lambda>x. x \<notin> set ys) xs = []"
    using assms by (auto simp: filter_empty_conv)
  then show ?thesis by (simp add: index_difference_def)
qed

lemma validateRows_same_keys:
  "set (index a) = set (index b) \<Longrightarrow> validateRows a b = Inr ()"
  by (simp add: validateRows_def index_difference_empty)

lemma excluded_rows_agree:
  assumes da: "distinct (index a)" and db: "distinct (index b)"
    and ag: "\<forall>l. l \<noteq> x \<longrightarrow> map_of (rows a) l = map_of (rows b) l"
  shows "set (rows (excludeRows a [x])) = set (rows (excludeRows b [x]))"
proof -
  have "(l, r) \<in> set (rows a) \<longleftrightarrow> (l, r) \<in> set (rows b)" if "l \<noteq> x" for l r
  proof -
    have "(l, r) \<in> set (rows a) \<longleftrightarrow> map_of (rows a) l = Some r"
      using da by (simp add: index_def)
    also have "\<dots> \<longleftrightarrow> map_of (rows b) l = Some r" using ag that by simp
    also have "\<dots> \<longleftrightarrow> (l, r) \<in> set (rows b)"
      using db by (simp add: index_def)
    finally show ?thesis .
  qed
  then show ?thesis by (auto simp: excludeRows_def)
qed

lemma distinct_index_excludeRows:
  "distinct (index a) \<Longrightarrow> distinct (index (excludeRows a labels))"
  by (simp add: index_def excludeRows_def distinct_map_filter)

text \<open>
  Two tables with the same columns and distinct keys that agree on every row but the
  one of \<open>x\<close> are the same table once that row is dropped and the rows are sorted.
\<close>

lemma aligned_tables_equal:
  assumes ca: "columns a = columns b"
    and da: "distinct (index a)" and db: "distinct (index b)"
    and ag: "\<forall>l. l \<noteq> x \<longrightarrow> map_of (rows a) l = map_of (rows b) l"
  shows "sortRows (excludeRows a [x]) = sortRows (excludeRows b [x])"
    and "set (index (excludeRows a [x])) = set (index (excludeRows b [x]))"
proof -
  have s: "set (rows (excludeRows a [x])) = set (rows (excludeRows b [x]))"
    by (rule excluded_rows_agree [OF da db ag])
  have "sort_key fst (rows (excludeRows a [x])) = sort_key fst (rows (excludeRows b [x]))"
    using distinct_index_excludeRows [OF da] distinct_index_excludeRows [OF db] s
    by (intro sort_key_unique) (simp_all add: index_def)
  then show "sortRows (excludeRows a [x]) = sortRows (excludeRows b [x])"
    using ca by (simp add: sortRows_def excludeRows_def)
  show "set (index (excludeRows a [x])) = set (index (excludeRows b [x]))"
    using s by (simp add: index_def)
qed

text \<open>\<open>computeMetrics\<close> after both tables have been parsed.\<close>

lemma computeMetrics_parsed:
  assumes "parseCsv truthCsv = Inr t" and "parseCsv predictionCsv = Inr p"
  shows "computeMetrics m truthCsv predictionCsv =
     bind_exn (validateRows (excludeRows t EXCLUDE_LABELS) (excludeRows p EXCLUDE_LABELS)) (\<lambda>u.
       bind_exn (balancedMulticlassAccuracy m (sortRows (excludeRows t EXCLUDE_LABELS))
                   (sortRows (excludeRows p EXCLUDE_LABELS))) (\<lambda>balanced.
         bind_exn (mapM_exn (category_score m (sortRows (excludeRows t EXCLUDE_LABELS))
                     (sortRows (excludeRows p EXCLUDE_LABELS))) CATEGORIES) (\<lambda>perCategory.
           Inr (\<lparr> dataset = ''aggregate'',
                  metrics = [\<lparr> metric_name = ''balanced_accuracy'',
                               metric_value = balanced \<rparr>] \<rparr> # perCategory))))"
  by (simp add: computeMetrics_def assms bind_exn_def Let_def)

text \<open>
  Claim C10. Take two pairs of ground-truth and prediction tables, all four parsed
  without failure, such that the two ground-truth tables hold the same row under every
  identifier other than \<^verbatim>\<open>ISIC_0035068\<close>, and so do the two prediction tables. Then
  \<open>computeMetrics\<close> gives the same outcome, the same scores or the same exception, for
  both pairs, whatever the metric functions are.
\<close>

theorem computeMetrics_ignores_excluded_row:
  assumes "parseCsv truthCsv = Inr t" and "parseCsv predictionCsv = Inr p"
    and "parseCsv truthCsv' = Inr t'" and "parseCsv predictionCsv' = Inr p'"
    and "\<forall>l. l \<noteq> ''ISIC_0035068'' \<longrightarrow> map_of (rows t) l = map_of (rows t') l"
    and "\<forall>l. l \<noteq> ''ISIC_0035068'' \<longrightarrow> map_of (rows p) l = map_of (rows p') l"
  shows "computeMetrics m truthCsv predictionCsv = computeMetrics m truthCsv' predictionCsv'"
proof -
  have ct: "columns t = columns t'"
    by (simp add: parseCsv_columns [OF assms(1)] parseCsv_columns [OF assms(3)])
  have cp: "columns p = columns p'"
    by (simp add: parseCsv_columns [OF assms(2)] parseCsv_columns [OF assms(4)])
  note dt = parseCsv_distinct_index [OF assms(1)] parseCsv_distinct_index [OF assms(3)]
  note dp = parseCsv_distinct_index [OF assms(2)] parseCsv_distinct_index [OF assms(4)]
  note T = aligned_tables_equal [OF ct dt assms(5), folded EXCLUDE_LABELS_def]
  note P = aligned_tables_equal [OF cp dp assms(6), folded EXCLUDE_LABELS_def]
  have v: "validateRows (excludeRows t EXCLUDE_LABELS) (excludeRows p EXCLUDE_LABELS) =
           validateRows (excludeRows t' EXCLUDE_LABELS) (excludeRows p' EXCLUDE_LABELS)"
    unfolding validateRows_def
    by (simp only: index_difference_sets [OF T(2) P(2)] index_difference_sets [OF P(2) T(2)])
  show ?thesis
    unfolding computeMetrics_parsed [OF assms(1,2)] computeMetrics_parsed [OF assms(3,4)]
    unfolding v T(1) P(1) by (rule refl)
qed

theorem computeMetrics_ignores_excluded_row_witness:
  "computeMetrics count_metrics example_truth example_prediction =
   computeMetrics count_metrics example_truth_short example_prediction_other"
proof (rule computeMetrics_ignores_excluded_row
    [OF parseCsv_example_truth parseCsv_example_prediction
        parseCsv_example_truth_short parseCsv_example_prediction_other])
  show "\<forall>l. l \<noteq> ''ISIC_0035068'' \<longrightarrow>
          map_of (rows example_truth_parsed) l = map_of (rows example_truth_short_parsed) l"
    by (simp add: example_truth_parsed_def example_truth_short_parsed_def)
  show "\<forall>l. l \<noteq> ''ISIC_0035068'' \<longrightarrow>
          map_of (rows example_prediction_parsed) l =
          map_of (rows example_prediction_other_parsed) l"
    by (simp add: example_prediction_parsed_def example_prediction_other_parsed_def)
qed

text \<open>
  The identity of the excluded image matters only after parsing: a submission whose
  row for the excluded image is out of range is rejected by \<open>parseCsv\<close>.
\<close>

lemma parseCsv_checks_excluded_row:
  "parseCsv \<lparr> image_ids = Some [''ISIC_0035068''],
              header = [''MEL'', ''NV'', ''BCC'', ''AKIEC'', ''BKL'', ''DF'', ''VASC''],
              records = [[FloatCell (Fin 1.5), FloatCell (Fin 0), FloatCell (Fin 0),
                          FloatCell (Fin 0), FloatCell (Fin 0), FloatCell (Fin 0),
                          FloatCell (Fin 0)]] \<rparr> =
     Inl (ScoreException (''Values in CSV are outside the interval [0.0, 1.0] for images: '' @
                          repr_list [''ISIC_0035068''] @ ''.''))"
  by (simp add: parseCsv_def CATEGORIES_def index_difference_def reindex_columns_def
      cell_at_def isnull_def dtype_is_float64_def column_cells_def is_float_def
      out_of_range_def Let_def)

subsection \<open>Order of the scores\<close>

lemma scoreLoop_datasets:
  "scoreLoop pop fs truthDir testDir names = Inr scores \<Longrightarrow>
     map dataset scores = map (rsplit1_head CHR ''_'') names"
proof (induction names arbitrary: scores)
  case Nil
  then show ?case by simp
next
  case (Cons truthFile rest)
  then show ?case
    by (auto simp: bind_exn_def Let_def split: sum.splits)
qed

lemma mapM_exn_Inr:
  "mapM_exn f xs = Inr ys \<Longrightarrow> list_all2 (\<lambda>x y. f x = Inr y) xs ys"
proof (induction xs arbitrary: ys)
  case Nil
  then show ?case by simp
next
  case (Cons x xs)
  then show ?case
    by (auto simp: bind_exn_def split: sum.splits)
qed

lemma mapM_exn_map:
  "(\<forall>x \<in> set xs. f x = Inr (g x)) \<Longrightarrow> mapM_exn f xs = Inr (map g xs)"
  by (induction xs) (simp_all add: bind_exn_def)

lemma category_score_Inr:
  assumes "category_score m t p c = Inr s"
  shows "dataset s = c \<and> map metric_name (metrics s) = category_metric_names"
  using assms
  by (auto simp: category_score_def bind_exn_def Let_def category_metric_names_def
      split: sum.splits)

lemma per_category_order:
  assumes "list_all2 (\<lambda>c s. category_score m t p c = Inr s) cats ss"
  shows "map dataset ss = cats \<and>
         map (\<lambda>s. map metric_name (metrics s)) ss = replicate (length cats) category_metric_names"
  using assms by (induction rule: list_all2_induct) (auto dest: category_score_Inr)

lemma computeMetrics_order:
  assumes "computeMetrics m truthCsv predictionCsv = Inr cscores"
  shows "map dataset cscores = ''aggregate'' # CATEGORIES \<and>
         map (\<lambda>s. map metric_name (metrics s)) cscores =
           [''balanced_accuracy''] # replicate (length CATEGORIES) category_metric_names"
proof -
  from assms obtain t p balanced perCategory where
    per: "mapM_exn (category_score m t p) CATEGORIES = Inr perCategory"
    and cs: "cscores = \<lparr> dataset = ''aggregate'',
                          metrics = [\<lparr> metric_name = ''balanced_accuracy'',
                                       metric_value = balanced \<rparr>] \<rparr> # perCategory"
    by (auto simp: computeMetrics_def bind_exn_def Let_def split: sum.splits)
  from per_category_order [OF mapM_exn_Inr [OF per]] show ?thesis
    by (simp add: cs)
qed

text \<open>
  Claim C4, as the code has it. A successful run of \<open>scoreP1\<close> returns one score per
  ground-truth file, in the ascending order of the file names, each under the file name
  cut at its last underscore. A successful run of \<open>computeMetrics\<close> returns the
  aggregate score first and then one score per category in the order MEL, NV, BCC,
  AKIEC, BKL, DF, VASC, each with its metrics in the order accuracy, sensitivity,
  specificity, f1_score, ppv, npv, auc, auc_sens_80.
\<close>

theorem score_order:
  "(listing fs truthDir = Some names \<and> scoreP1 pop fs truthDir testDir = Inr scores \<longrightarrow>
      map dataset scores = map (rsplit1_head CHR ''_'') (sort names)) \<and>
   (computeMetrics m truthCsv predictionCsv = Inr cscores \<longrightarrow>
      map dataset cscores =
        [''aggregate'', ''MEL'', ''NV'', ''BCC'', ''AKIEC'', ''BKL'', ''DF'', ''VASC''] \<and>
      map (\<lambda>s. map metric_name (metrics s)) cscores =
        [''balanced_accuracy''] #
        replicate 7 [''accuracy'', ''sensitivity'', ''specificity'', ''f1_score'', ''ppv'',
                     ''npv'', ''auc'', ''auc_sens_80''])"
proof (intro conjI impI)
  assume "listing fs truthDir = Some names \<and> scoreP1 pop fs truthDir testDir = Inr scores"
  then have "scoreLoop pop fs truthDir testDir (sort names) = Inr scores"
    by (auto simp: scoreP1_def)
  then show "map dataset scores = map (rsplit1_head CHR ''_'') (sort names)"
    by (rule scoreLoop_datasets)
next
  assume c: "computeMetrics m truthCsv predictionCsv = Inr cscores"
  from computeMetrics_order [OF c]
  show "map dataset cscores =
        [''aggregate'', ''MEL'', ''NV'', ''BCC'', ''AKIEC'', ''BKL'', ''DF'', ''VASC'']"
    by (simp add: CATEGORIES_def)
  have len: "length CATEGORIES = 7" by (simp add: CATEGORIES_def)
  from computeMetrics_order [OF c, unfolded len category_metric_names_def]
  show "map (\<lambda>s. map metric_name (metrics s)) cscores =
        [''balanced_accuracy''] #
        replicate 7 [''accuracy'', ''sensitivity'', ''specificity'', ''f1_score'', ''ppv'',
                     ''npv'', ''auc'', ''auc_sens_80'']"
    by (rule conjunct2)
qed

text \<open>The run of \<open>scoreP1\<close> on the sample directories and of \<open>computeMetrics\<close> on the sample tables.\<close>

lemma sort_example_names:
  "sort [''ISIC_1_Segmentation.png'', ''ISIC_1_2_Segmentation.png''] =
     [''ISIC_1_2_Segmentation.png'', ''ISIC_1_Segmentation.png'']"
  by simp

lemma loadImage_example_dirs:
  "loadImage hd example_dirs ''truth/ISIC_1_Segmentation.png'' = Inr \<lparr>shape = (1, 2), data = [0, 255]\<rparr>"
  "loadImage hd example_dirs ''truth/ISIC_1_2_Segmentation.png'' = Inr \<lparr>shape = (1, 2), data = [0, 255]\<rparr>"
  "loadImage hd example_dirs ''sub/ISIC_1.png'' = Inr \<lparr>shape = (1, 2), data = [0, 255]\<rparr>"
  by (simp_all add: loadImage_def example_dirs_def example_fs_def grey_def np_unique_def)

lemma matchInputFile_example_dirs:
  "matchInputFile example_dirs ''ISIC_1_Segmentation.png'' ''sub'' = Inr ''sub/ISIC_1.png''"
  "matchInputFile example_dirs ''ISIC_1_2_Segmentation.png'' ''sub'' = Inr ''sub/ISIC_1.png''"
  by (simp_all add: matchInputFile_def example_dirs_def example_fs_def path_join_def)

lemma scoreP1Image_example_dirs:
  "scoreP1Image hd example_dirs ''truth/ISIC_1_Segmentation.png'' ''sub/ISIC_1.png'' = Inr all_ones"
  "scoreP1Image hd example_dirs ''truth/ISIC_1_2_Segmentation.png'' ''sub/ISIC_1.png'' = Inr all_ones"
  by (simp_all add: scoreP1Image_def loadImage_example_dirs bind_exn_def image_metrics_self)

lemma scoreP1_example_dirs:
  "scoreP1 hd example_dirs ''truth'' ''sub'' =
     Inr [\<lparr> dataset = ''ISIC_1_2'', metrics = all_ones \<rparr>,
          \<lparr> dataset = ''ISIC_1'', metrics = all_ones \<rparr>]"
proof -
  have l: "listing example_dirs ''truth'' =
      Some [''ISIC_1_Segmentation.png'', ''ISIC_1_2_Segmentation.png'']"
    by (simp add: example_dirs_def example_fs_def)
  have j: "path_join ''truth'' ''ISIC_1_Segmentation.png'' = ''truth/ISIC_1_Segmentation.png''"
    "path_join ''truth'' ''ISIC_1_2_Segmentation.png'' = ''truth/ISIC_1_2_Segmentation.png''"
    by (simp_all add: path_join_def)
  have r: "rsplit1_head CHR ''_'' ''ISIC_1_Segmentation.png'' = ''ISIC_1''"
    "rsplit1_head CHR ''_'' ''ISIC_1_2_Segmentation.png'' = ''ISIC_1_2''"
    by (simp_all add: rsplit1_head_def)
  show ?thesis
    unfolding scoreP1_def l option.case sort_example_names
    by (simp add: matchInputFile_example_dirs scoreP1Image_example_dirs j r bind_exn_def)
qed

lemma category_score_count_metrics:
  assumes "c \<in> set (columns t)" and "c \<in> set (columns p)"
  shows "\<exists>s. category_score count_metrics t p c = Inr s"
  using assms
  by (simp add: category_score_def getitem_def bind_exn_def count_metrics_def Let_def)

lemma computeMetrics_example:
  "\<exists>s. computeMetrics count_metrics example_truth example_prediction = Inr s"
proof -
  let ?t = "excludeRows example_truth_parsed EXCLUDE_LABELS"
  let ?p = "excludeRows example_prediction_parsed EXCLUDE_LABELS"
  have "set (index ?t) = set (index ?p)"
    by (auto simp: index_def excludeRows_def EXCLUDE_LABELS_def example_truth_parsed_def
        example_prediction_parsed_def)
  then have v: "validateRows ?t ?p = Inr ()" by (rule validateRows_same_keys)
  have cols: "columns (sortRows ?t) = CATEGORIES" "columns (sortRows ?p) = CATEGORIES"
    by (simp_all add: sortRows_def excludeRows_def example_truth_parsed_def
        example_prediction_parsed_def CATEGORIES_def)
  have "\<forall>c \<in> set CATEGORIES. \<exists>s. category_score count_metrics (sortRows ?t) (sortRows ?p) c = Inr s"
    using category_score_count_metrics cols by simp
  then obtain g where
    "\<forall>c \<in> set CATEGORIES. category_score count_metrics (sortRows ?t) (sortRows ?p) c = Inr (g c)"
    by metis
  then have "mapM_exn (category_score count_metrics (sortRows ?t) (sortRows ?p)) CATEGORIES =
      Inr (map g CATEGORIES)"
    by (rule mapM_exn_map)
  then show ?thesis
    unfolding computeMetrics_parsed [OF parseCsv_example_truth parseCsv_example_prediction] v
    by (simp add: bind_exn_def count_metrics_def)
qed

theorem score_order_witness:
  "map dataset (projr (scoreP1 hd example_dirs ''truth'' ''sub'')) = [''ISIC_1_2'', ''ISIC_1''] \<and>
   map dataset (projr (computeMetrics count_metrics example_truth example_prediction)) =
     [''aggregate'', ''MEL'', ''NV'', ''BCC'', ''AKIEC'', ''BKL'', ''DF'', ''VASC'']"
proof -
  obtain s where s: "computeMetrics count_metrics example_truth example_prediction = Inr s"
    using computeMetrics_example by blast
  have l: "listing example_dirs ''truth'' =
      Some [''ISIC_1_Segmentation.png'', ''ISIC_1_2_Segmentation.png'']"
    by (simp add: example_dirs_def example_fs_def)
  from score_order [of example_dirs "''truth''"
      "[''ISIC_1_Segmentation.png'', ''ISIC_1_2_Segmentation.png'']" hd "''sub''"
      "[\<lparr> dataset = ''ISIC_1_2'', metrics = all_ones \<rparr>, \<lparr> dataset = ''ISIC_1'', metrics = all_ones \<rparr>]"
      count_metrics example_truth example_prediction s]
  show ?thesis
    by (simp add: l s scoreP1_example_dirs)
qed

text \<open>
  The scores of the sample directories are in the order of the file names, and their
  dataset identifiers are not ascending.
\<close>

theorem score_order_counterexample:
  "scoreP1 hd example_dirs ''truth'' ''sub'' =
     Inr [\<lparr> dataset = ''ISIC_1_2'', metrics = all_ones \<rparr>,
          \<lparr> dataset = ''ISIC_1'', metrics = all_ones \<rparr>] \<and>
   \<not> sorted [''ISIC_1_2'', ''ISIC_1'']"
  by (simp add: scoreP1_example_dirs)

end
